theory Spec2Isabelle
  imports Complex_Main
begin

section \<open>GLSL values\<close>

text \<open>
  The shaders of \<open>SplatMaterial3D\<close> compute on GLSL \<open>float\<close>s. They are modelled by
  the real numbers: rounding, infinities and NaN are outside the model. A GLSL \<open>mat3\<close>
  is stored by columns, and its constructor \<open>mat3(a, b, c, d, e, f, g, h, i)\<close> takes
  the nine scalars column after column: \<open>(a, b, c)\<close> is the first column.
  \<open>m[i][j]\<close> is component \<open>j\<close> of column \<open>i\<close>.
\<close>

datatype vec2 = Vec2 (vec2_x: real) (vec2_y: real)

datatype vec3 = Vec3 (vec3_x: real) (vec3_y: real) (vec3_z: real)

datatype vec4 = Vec4 (vec4_x: real) (vec4_y: real) (vec4_z: real) (vec4_w: real)

datatype mat3 = Mat3 (col0: vec3) (col1: vec3) (col2: vec3)

text \<open>The swizzles \<open>v.rgb\<close> and \<open>v.a\<close>, and the constructor \<open>vec4(c, a)\<close> from a
  \<open>vec3\<close> and a float.\<close>

definition rgb :: "vec4 \<Rightarrow> vec3" where
  "rgb v = Vec3 (vec4_x v) (vec4_y v) (vec4_z v)"

definition alpha :: "vec4 \<Rightarrow> real" where
  "alpha v = vec4_w v"

definition vec4 :: "vec3 \<Rightarrow> real \<Rightarrow> vec4" where
  "vec4 c a = Vec4 (vec3_x c) (vec3_y c) (vec3_z c) a"

definition mat3 :: "real \<Rightarrow> real \<Rightarrow> real \<Rightarrow> real \<Rightarrow> real \<Rightarrow> real \<Rightarrow> real \<Rightarrow> real \<Rightarrow> real \<Rightarrow> mat3" where
  "mat3 a b c d e f g h i = Mat3 (Vec3 a b c) (Vec3 d e f) (Vec3 g h i)"

fun add2 :: "vec2 \<Rightarrow> vec2 \<Rightarrow> vec2" where
  "add2 (Vec2 a b) (Vec2 c d) = Vec2 (a + c) (b + d)"

fun mul2 :: "vec2 \<Rightarrow> vec2 \<Rightarrow> vec2" where
  "mul2 (Vec2 a b) (Vec2 c d) = Vec2 (a * c) (b * d)"

fun scale2 :: "vec2 \<Rightarrow> real \<Rightarrow> vec2" where
  "scale2 (Vec2 a b) k = Vec2 (a * k) (b * k)"

fun dot2 :: "vec2 \<Rightarrow> vec2 \<Rightarrow> real" where
  "dot2 (Vec2 a b) (Vec2 c d) = a * c + b * d"

definition length2 :: "vec2 \<Rightarrow> real" where
  "length2 v = sqrt (dot2 v v)"

text \<open>GLSL \<open>normalize(v) = v / length(v)\<close>. For the zero vector this divides zero by
  zero and GLSL leaves the result undefined: \<open>None\<close>.\<close>

definition normalize2 :: "vec2 \<Rightarrow> vec2 option" where
  "normalize2 v =
     (if length2 v = 0 then None
      else Some (Vec2 (vec2_x v / length2 v) (vec2_y v / length2 v)))"

fun add3 :: "vec3 \<Rightarrow> vec3 \<Rightarrow> vec3" where
  "add3 (Vec3 a b c) (Vec3 d e f) = Vec3 (a + d) (b + e) (c + f)"

fun sub3 :: "vec3 \<Rightarrow> vec3 \<Rightarrow> vec3" where
  "sub3 (Vec3 a b c) (Vec3 d e f) = Vec3 (a - d) (b - e) (c - f)"

fun mul3 :: "vec3 \<Rightarrow> vec3 \<Rightarrow> vec3" where
  "mul3 (Vec3 a b c) (Vec3 d e f) = Vec3 (a * d) (b * e) (c * f)"

fun scale3 :: "vec3 \<Rightarrow> real \<Rightarrow> vec3" where
  "scale3 (Vec3 a b c) k = Vec3 (a * k) (b * k) (c * k)"

text \<open>GLSL \<open>mix(x, y, a) = x * (1 - a) + y * a\<close>, component by component.\<close>

definition mix3 :: "vec3 \<Rightarrow> vec3 \<Rightarrow> real \<Rightarrow> vec3" where
  "mix3 u v a = add3 (scale3 u (1 - a)) (scale3 v a)"

text \<open>GLSL \<open>fract(x) = x - floor(x)\<close>.\<close>

definition fract :: "real \<Rightarrow> real" where
  "fract x = x - of_int \<lfloor>x\<rfloor>"

fun transpose3 :: "mat3 \<Rightarrow> mat3" where
  "transpose3 (Mat3 (Vec3 a b c) (Vec3 d e f) (Vec3 g h i)) =
     Mat3 (Vec3 a d g) (Vec3 b e h) (Vec3 c f i)"

text \<open>Matrix times column vector: the linear combination of the columns.\<close>

fun mulMV :: "mat3 \<Rightarrow> vec3 \<Rightarrow> vec3" where
  "mulMV (Mat3 c0 c1 c2) (Vec3 u v w) = add3 (add3 (scale3 c0 u) (scale3 c1 v)) (scale3 c2 w)"

text \<open>Matrix product \<open>A * B\<close>: column \<open>j\<close> of the product is \<open>A\<close> times column \<open>j\<close> of \<open>B\<close>.\<close>

fun mulMM :: "mat3 \<Rightarrow> mat3 \<Rightarrow> mat3" where
  "mulMM A (Mat3 b0 b1 b2) = Mat3 (mulMV A b0) (mulMV A b1) (mulMV A b2)"


section \<open>The fragment shader (\<open>SplatMaterial3D.buildFragmentShader\<close>)\<close>

record frag_uniforms =
  rainbowEffect :: real
  time :: real
  pulseEffect :: real
  pulseTime :: real
  glowEffect :: real
  invertEffect :: real
  positionEffect :: real
  positionOffset :: vec3
  positionTime :: real

definition applyRainbowEffect :: "vec3 \<Rightarrow> real \<Rightarrow> vec3" where
  "applyRainbowEffect color t =
     (let hue = t;
          rainbow = Vec3 (sin (hue * 6.28318) * 0.5 + 0.5)
                         (sin ((hue + 0.333) * 6.28318) * 0.5 + 0.5)
                         (sin ((hue + 0.666) * 6.28318) * 0.5 + 0.5)
      in mix3 color rainbow 0.5)"

definition applyPulseEffect :: "real \<Rightarrow> real" where
  "applyPulseEffect t = sin t * 0.5 + 0.5"

definition applyGlowEffect :: "vec3 \<Rightarrow> vec3" where
  "applyGlowEffect color = scale3 color 1.5"

definition applyInvertEffect :: "vec3 \<Rightarrow> vec3" where
  "applyInvertEffect color = sub3 (Vec3 1 1 1) color"

text \<open>The square wave of \<open>applyPositionEffect\<close>, with the frequency the source fixes.\<close>

definition wave :: "real \<Rightarrow> real" where
  "wave t = (let frequency = 15 in if fract (t * frequency) < 0.5 then 1 else - 1)"

definition applyPositionEffect :: "frag_uniforms \<Rightarrow> vec2 \<Rightarrow> real \<Rightarrow> vec2" where
  "applyPositionEffect u position t =
     add2 position
       (scale2 (Vec2 (vec3_x (positionOffset u)) (vec3_y (positionOffset u))) (wave t))"

definition finalPosition :: "frag_uniforms \<Rightarrow> vec2 \<Rightarrow> vec2" where
  "finalPosition u vPosition =
     (if positionEffect u > 0 then applyPositionEffect u vPosition (positionTime u)
      else vPosition)"

text \<open>The chain of colour effects of \<open>main\<close>, in the order of the source.\<close>

definition colorEffects :: "frag_uniforms \<Rightarrow> vec3 \<Rightarrow> vec3" where
  "colorEffects u color =
     (let c1 = (if rainbowEffect u > 0 then applyRainbowEffect color (time u) else color);
          c2 = (if pulseEffect u > 0
                then (let pulse = applyPulseEffect (pulseTime u) in mix3 c1 (scale3 c1 pulse) 0.5)
                else c1);
          c3 = (if glowEffect u > 0 then applyGlowEffect c2 else c2);
          c4 = (if invertEffect u > 0 then applyInvertEffect c3 else c3)
      in c4)"

text \<open>\<open>main\<close>: \<open>None\<close> is \<open>discard\<close>, \<open>Some\<close> is the value written to \<open>gl_FragColor\<close>.\<close>

definition main :: "frag_uniforms \<Rightarrow> vec4 \<Rightarrow> vec2 \<Rightarrow> vec4 option" where
  "main u vColor vPosition =
     (let fp = finalPosition u vPosition;
          A = dot2 fp fp
      in if A > 8 then None
         else (let color = rgb vColor;
                   opacity = exp (- 0.5 * A) * alpha vColor
               in Some (vec4 (colorEffects u color) opacity)))"


section \<open>The vertex shader (\<open>SplatMaterial3D.buildVertexShaderProjection\<close>)\<close>

text \<open>The parameters of \<open>buildVertexShaderProjection\<close>: JavaScript values, written into
  the shader text when it is built.\<close>

record build_params =
  antialiased :: bool
  enableOptionalEffects :: bool
  maxScreenSpaceSplatSize :: real
  kernel2DSize :: real

text \<open>
  JavaScript \<open>parseInt\<close> on a number prints the number and reads the integer at the
  front of the text. For a number printed in plain decimal notation (zero, or a magnitude
  from \<open>10^-6\<close> up to, not including, \<open>10^21\<close>) that is the number truncated
  towards zero. Other numbers are printed with an exponent; for them \<open>parseInt\<close> below
  is not what JavaScript computes.
\<close>

definition plain_decimal :: "real \<Rightarrow> bool" where
  "plain_decimal n \<longleftrightarrow> n = 0 \<or> (1 / 10 ^ 6 \<le> \<bar>n\<bar> \<and> \<bar>n\<bar> < 10 ^ 21)"

definition parseInt :: "real \<Rightarrow> int" where
  "parseInt n = (if 0 \<le> n then \<lfloor>n\<rfloor> else \<lceil>n\<rceil>)"

text \<open>
  The variables the projection reads. The shader declares and sets them in
  \<open>SplatMaterial.buildVertexShaderBase\<close>, which is not among the sources, so they are
  inputs here. \<open>cov3D_M11_M12_M13\<close> and \<open>cov3D_M22_M23_M33\<close> are the six covariance
  entries after the texture lookup; \<open>modelView3\<close> is \<open>mat3(transformModelViewMatrix)\<close>,
  the upper left 3x3 part of the model-view matrix; \<open>viewCenter\<close> and \<open>ndcCenter\<close> are
  given by the components \<open>x\<close>, \<open>y\<close>, \<open>z\<close> that the projection reads.
\<close>

record vertex_in =
  cov3D_M11_M12_M13 :: vec3
  cov3D_M22_M23_M33 :: vec3
  orthographicMode :: int
  orthoZoom :: real
  viewCenter :: vec3
  focal :: vec2
  modelView3 :: mat3
  vColor :: vec4
  minAlpha :: real
  pointCloudModeEnabled :: int
  splatScale :: real
  splatOpacityFromScene :: real
  vPosition :: vec2
  basisViewport :: vec2
  inverseFocalAdjustment :: real
  ndcCenter :: vec3

text \<open>Modelled from the spec: the constant \<open>sqrt8\<close> of the vertex shader base
  (\<open>SplatMaterial.buildVertexShaderBase\<close>, not among the sources); the spec gives the
  factor as the square root of 8.\<close>

definition sqrt8 :: real where
  "sqrt8 = sqrt 8"

text \<open>The entries \<open>m[0][0]\<close>, \<open>m[0][1]\<close>, \<open>m[1][0]\<close> and \<open>m[1][1]\<close>.\<close>

definition m00 :: "mat3 \<Rightarrow> real" where
  "m00 m = vec3_x (col0 m)"

definition m01 :: "mat3 \<Rightarrow> real" where
  "m01 m = vec3_y (col0 m)"

definition m10 :: "mat3 \<Rightarrow> real" where
  "m10 m = vec3_x (col1 m)"

definition m11 :: "mat3 \<Rightarrow> real" where
  "m11 m = vec3_y (col1 m)"

text \<open>The 3D covariance matrix.\<close>

definition Vrk :: "vertex_in \<Rightarrow> mat3" where
  "Vrk v =
     (let c1 = cov3D_M11_M12_M13 v; c2 = cov3D_M22_M23_M33 v
      in mat3 (vec3_x c1) (vec3_y c1) (vec3_z c1)
              (vec3_y c1) (vec3_x c2) (vec3_y c2)
              (vec3_z c1) (vec3_y c2) (vec3_z c2))"

text \<open>The matrix \<open>J\<close>.\<close>

definition Jm :: "vertex_in \<Rightarrow> mat3" where
  "Jm v =
     (if orthographicMode v = 1
      then transpose3 (mat3 (orthoZoom v) 0 0
                            0 (orthoZoom v) 0
                            0 0 0)
      else (let s = 1 / (vec3_z (viewCenter v) * vec3_z (viewCenter v))
            in mat3 (vec2_x (focal v) / vec3_z (viewCenter v)) 0
                      (- (vec2_x (focal v) * vec3_x (viewCenter v)) * s)
                    0 (vec2_y (focal v) / vec3_z (viewCenter v))
                      (- (vec2_y (focal v) * vec3_y (viewCenter v)) * s)
                    0 0 0))"

text \<open>The matrices \<open>W\<close> and \<open>T\<close>.\<close>

definition Wm :: "vertex_in \<Rightarrow> mat3" where
  "Wm v = transpose3 (modelView3 v)"

definition Tm :: "vertex_in \<Rightarrow> mat3" where
  "Tm v = mulMM (Wm v) (Jm v)"

text \<open>The 2D covariance matrix before the kernel is added.\<close>

definition cov2Dm :: "vertex_in \<Rightarrow> mat3" where
  "cov2Dm v = mulMM (mulMM (transpose3 (Tm v)) (Vrk v)) (Tm v)"

text \<open>\<open>m[0][0] += k; m[1][1] += k\<close>.\<close>

fun dilate :: "real \<Rightarrow> mat3 \<Rightarrow> mat3" where
  "dilate k (Mat3 (Vec3 a b c) (Vec3 d e f) c2) = Mat3 (Vec3 (a + k) b c) (Vec3 d (e + k) f) c2"

text \<open>\<open>m[0][0] * m[1][1] - m[0][1] * m[0][1]\<close>.\<close>

definition det2 :: "mat3 \<Rightarrow> real" where
  "det2 m = m00 m * m11 m - m01 m * m01 m"

text \<open>The part of the shader text chosen by \<open>antialiased\<close>: it returns the dilated matrix
  and \<open>vColor.a\<close>, or \<open>None\<close> when the shader returns there.\<close>

definition blur :: "build_params \<Rightarrow> vertex_in \<Rightarrow> (mat3 \<times> real) option" where
  "blur bp v =
     (if antialiased bp
      then (let detOrig = det2 (cov2Dm v);
                m = dilate (kernel2DSize bp) (cov2Dm v);
                detBlur = det2 m;
                a = alpha (vColor v) * sqrt (max (detOrig / detBlur) 0)
            in if a < minAlpha v then None else Some (m, a))
      else Some (dilate (kernel2DSize bp) (cov2Dm v), alpha (vColor v)))"

text \<open>The eigenvalues of the symmetric matrix with the entries \<open>a\<close>, \<open>b\<close>, \<open>d\<close>.\<close>

definition eigenSolve :: "real \<Rightarrow> real \<Rightarrow> real \<Rightarrow> real \<times> real" where
  "eigenSolve a b d =
     (let D = a * d - b * b;
          trace = a + d;
          traceOver2 = 0.5 * trace;
          term2 = sqrt (max 0.1 (traceOver2 * traceOver2 - D))
      in (traceOver2 + term2, traceOver2 - term2))"

text \<open>The eigenvalues after the point cloud override.\<close>

definition eigenValues :: "vertex_in \<Rightarrow> real \<Rightarrow> real \<Rightarrow> real \<Rightarrow> real \<times> real" where
  "eigenValues v a b d = (if pointCloudModeEnabled v = 1 then (0.2, 0.2) else eigenSolve a b d)"

text \<open>The values of the shader's variables when it has run to its end. A variable
  computed from an undefined value (the normalized zero vector) is undefined: \<open>None\<close>.\<close>

record vertex_out =
  out_cov2Dv :: vec3
  out_eigenValue1 :: real
  out_eigenValue2 :: real
  out_eigenVector1 :: "vec2 option"
  out_eigenVector2 :: "vec2 option"
  out_basisVector1 :: "vec2 option"
  out_basisVector2 :: "vec2 option"
  out_vColor_a :: real
  out_gl_Position :: "vec4 option"
  out_vPosition :: vec2

text \<open>\<open>ndcOffset\<close> and \<open>quadPos\<close>, from the two basis vectors.\<close>

definition quadPosition :: "vertex_in \<Rightarrow> vec2 \<Rightarrow> vec2 \<Rightarrow> vec4" where
  "quadPosition v b1 b2 =
     (let ndcOffset =
            scale2 (scale2 (mul2 (add2 (scale2 b1 (vec2_x (vPosition v)))
                                       (scale2 b2 (vec2_y (vPosition v))))
                                 (basisViewport v)) 2)
                   (inverseFocalAdjustment v)
      in Vec4 (vec3_x (ndcCenter v) + vec2_x ndcOffset)
              (vec3_y (ndcCenter v) + vec2_y ndcOffset)
              (vec3_z (ndcCenter v)) 1)"

text \<open>
  The projection: \<open>None\<close> when the shader executes one of its \<open>return\<close> statements (the
  splat is not drawn), otherwise the values computed. The fade-in text appended at the end
  (\<open>SplatMaterial.getVertexShaderFadeIn\<close>) is not among the sources and is left out.
\<close>

definition buildVertexShaderProjection :: "build_params \<Rightarrow> vertex_in \<Rightarrow> vertex_out option" where
  "buildVertexShaderProjection bp v =
     (case blur bp v of
        None \<Rightarrow> None
      | Some (m, a0) \<Rightarrow>
          (let cov2Dv = Vec3 (m00 m) (m01 m) (m11 m);
               a = vec3_x cov2Dv;
               d = vec3_z cov2Dv;
               b = vec3_y cov2Dv;
               ev = eigenValues v a b d
           in if snd ev \<le> 0 then None
              else (let e1 = normalize2 (Vec2 b (fst ev - a));
                        e2 = map_option (\<lambda>e. Vec2 (vec2_y e) (- vec2_x e)) e1;
                        cap = of_int (parseInt (maxScreenSpaceSplatSize bp));
                        b1 = map_option
                               (\<lambda>e. scale2 (scale2 e (splatScale v))
                                            (min (sqrt8 * sqrt (fst ev)) cap)) e1;
                        b2 = map_option
                               (\<lambda>e. scale2 (scale2 e (splatScale v))
                                            (min (sqrt8 * sqrt (snd ev)) cap)) e2;
                        a1 = (if enableOptionalEffects bp then a0 * splatOpacityFromScene v else a0);
                        quadPos = (case (b1, b2) of
                                     (Some c1, Some c2) \<Rightarrow> Some (quadPosition v c1 c2)
                                   | _ \<Rightarrow> None)
                    in Some \<lparr>out_cov2Dv = cov2Dv,
                             out_eigenValue1 = fst ev, out_eigenValue2 = snd ev,
                             out_eigenVector1 = e1, out_eigenVector2 = e2,
                             out_basisVector1 = b1, out_basisVector2 = b2,
                             out_vColor_a = a1,
                             out_gl_Position = quadPos,
                             out_vPosition = scale2 (vPosition v) sqrt8\<rparr>)))"


section \<open>The written specification of the projection, and sample inputs\<close>

text \<open>
  For the comparison with the specification, which writes \<open>J\<close> as three bracketed
  triples: a matrix written as a list of its rows, as matrices usually are.
\<close>

definition rows3 :: "vec3 \<Rightarrow> vec3 \<Rightarrow> vec3 \<Rightarrow> mat3" where
  "rows3 r0 r1 r2 = transpose3 (Mat3 r0 r1 r2)"

text \<open>\<open>J\<close> as the specification writes it, the triples read as rows.\<close>

definition J_written :: "vertex_in \<Rightarrow> mat3" where
  "J_written v =
     (if orthographicMode v = 1
      then rows3 (Vec3 (orthoZoom v) 0 0) (Vec3 0 (orthoZoom v) 0) (Vec3 0 0 0)
      else rows3 (Vec3 (vec2_x (focal v) / vec3_z (viewCenter v)) 0
                       (- vec2_x (focal v) * vec3_x (viewCenter v) / (vec3_z (viewCenter v))\<^sup>2))
                 (Vec3 0 (vec2_y (focal v) / vec3_z (viewCenter v))
                       (- vec2_y (focal v) * vec3_y (viewCenter v) / (vec3_z (viewCenter v))\<^sup>2))
                 (Vec3 0 0 0))"

text \<open>The specification's \<open>T = transpose(modelViewUpper3x3) * J\<close> and
  \<open>cov2D = transpose(T) * Vrk * T\<close>, with that \<open>J\<close>.\<close>

definition cov2D_written :: "vertex_in \<Rightarrow> mat3" where
  "cov2D_written v =
     (let T = mulMM (transpose3 (modelView3 v)) (J_written v)
      in mulMM (mulMM (transpose3 T) (Vrk v)) T)"

definition identity3 :: mat3 where
  "identity3 = mat3 1 0 0 0 1 0 0 0 1"

text \<open>The default values of the parameters of \<open>SplatMaterial3D.build\<close>.\<close>

definition default_params :: build_params where
  "default_params = \<lparr>antialiased = False, enableOptionalEffects = False,
                      maxScreenSpaceSplatSize = 2048, kernel2DSize = 0.3\<rparr>"

text \<open>A splat with the identity covariance, seen in perspective, off the view axis.\<close>

definition off_axis_splat :: vertex_in where
  "off_axis_splat =
     \<lparr>cov3D_M11_M12_M13 = Vec3 1 0 0, cov3D_M22_M23_M33 = Vec3 1 0 1,
      orthographicMode = 0, orthoZoom = 1, viewCenter = Vec3 1 0 1, focal = Vec2 1 1,
      modelView3 = identity3, vColor = Vec4 1 1 1 1, minAlpha = 1 / 255,
      pointCloudModeEnabled = 0, splatScale = 1, splatOpacityFromScene = 1,
      vPosition = Vec2 1 1, basisViewport = Vec2 1 1, inverseFocalAdjustment = 1,
      ndcCenter = Vec3 0 0 0\<rparr>"

text \<open>A splat with the covariance \<open>diag(1.7, 7.7, 1)\<close>, seen by an orthographic camera.\<close>

definition aligned_splat :: vertex_in where
  "aligned_splat =
     \<lparr>cov3D_M11_M12_M13 = Vec3 1.7 0 0, cov3D_M22_M23_M33 = Vec3 7.7 0 1,
      orthographicMode = 1, orthoZoom = 1, viewCenter = Vec3 0 0 5, focal = Vec2 1000 1000,
      modelView3 = identity3, vColor = Vec4 1 1 1 1, minAlpha = 1 / 255,
      pointCloudModeEnabled = 0, splatScale = 1, splatOpacityFromScene = 1,
      vPosition = Vec2 1 1, basisViewport = Vec2 1 1, inverseFocalAdjustment = 1,
      ndcCenter = Vec3 0 0 0\<rparr>"

text \<open>The same splat with the zero covariance.\<close>

definition zero_splat :: vertex_in where
  "zero_splat = aligned_splat\<lparr>cov3D_M11_M12_M13 := Vec3 0 0 0, cov3D_M22_M23_M33 := Vec3 0 0 0\<rparr>"

text \<open>The same splat with the covariance \<open>diag(7.7, 1.7, 1)\<close>: wider than high.\<close>

definition wide_splat :: vertex_in where
  "wide_splat = aligned_splat\<lparr>cov3D_M11_M12_M13 := Vec3 7.7 0 0, cov3D_M22_M23_M33 := Vec3 1.7 0 1\<rparr>"

text \<open>A flat splat, covariance \<open>diag(0, 1, 0)\<close>, drawn in point cloud mode.\<close>

definition flat_splat :: vertex_in where
  "flat_splat = aligned_splat\<lparr>cov3D_M11_M12_M13 := Vec3 0 0 0, cov3D_M22_M23_M33 := Vec3 1 0 0,
                              pointCloudModeEnabled := 1\<rparr>"

text \<open>
  For the comparison with the specification, which speaks of a square wave at a
  configurable frequency: the square wave of frequency \<open>f\<close>.
\<close>

definition square_wave_written :: "real \<Rightarrow> real \<Rightarrow> real" where
  "square_wave_written f t = (if fract (t * f) < 0.5 then 1 else - 1)"


section \<open>The fragment shader: properties\<close>

lemma rgb_vec4 [simp]: "rgb (vec4 c a) = c"
  by (cases c) (simp add: rgb_def vec4_def)

lemma alpha_vec4 [simp]: "alpha (vec4 c a) = a"
  by (simp add: alpha_def vec4_def)

lemma wave_first_half:
  assumes "0 \<le> t" and "t < 1 / 30"
  shows "wave t = 1"
proof -
  have "\<lfloor>t * 15\<rfloor> = 0"
    using assms by (simp add: floor_eq_iff)
  then show ?thesis
    using assms by (simp add: wave_def fract_def)
qed

lemma wave_at_half_period: "wave (1 / 30) = - 1"
  by (simp add: wave_def fract_def)

lemma wave_jumps: "\<not> isCont wave (1 / 30)"
proof
  assume "isCont wave (1 / 30)"
  then have "wave \<midarrow>1 / 30\<rightarrow> wave (1 / 30)"
    by (simp add: isCont_def)
  then obtain s where s: "s > 0"
    "\<And>x. x \<noteq> 1 / 30 \<Longrightarrow> dist x (1 / 30) < s \<Longrightarrow> dist (wave x) (wave (1 / 30)) < 1"
    unfolding LIM_def by (metis zero_less_one)
  define t where "t = 1 / 30 - min (s / 2) (1 / 60)"
  have t: "0 \<le> t" "t < 1 / 30" "dist t (1 / 30) < s"
    using s(1) by (simp_all add: t_def dist_real_def min_def)
  then have "dist (wave t) (wave (1 / 30)) < 1"
    using s(2)[of t] by simp
  then show False
    using wave_first_half[OF t(1,2)] by (simp add: wave_at_half_period dist_real_def)
qed

text \<open>
  Claim C4, as stated: the pixel is discarded exactly when \<open>distSq = dot p p\<close> exceeds 8,
  and a pixel at exactly \<open>distSq = 8\<close> is discarded. The source tests \<open>A > 8.0\<close>, so
  the pixel at \<open>p = (2, 2)\<close>, where \<open>dot p p = 8\<close>, is kept.
\<close>

theorem C4_boundary_counterexample:
  "dot2 (Vec2 2 2) (Vec2 2 2) = 8 \<and>
   main \<lparr>rainbowEffect = 0, time = 0, pulseEffect = 0, pulseTime = 0, glowEffect = 0,
         invertEffect = 0, positionEffect = 0, positionOffset = Vec3 0 0 0, positionTime = 0\<rparr>
        (Vec4 1 0 0 1) (Vec2 2 2) = Some (Vec4 1 0 0 (exp (- 4)))"
  by (simp add: main_def finalPosition_def colorEffects_def Let_def rgb_def alpha_def vec4_def)

text \<open>
  Claim C4, amended: with \<open>p\<close> the local coordinate after the position effect, the pixel
  is discarded exactly when \<open>dot p p > 8\<close>; a pixel that is kept has the alpha
  \<open>exp (- 0.5 * dot p p) * opacity\<close>. The bound is exclusive: at \<open>dot p p = 8\<close> the
  pixel is kept (with alpha \<open>exp (- 4) * opacity\<close>), at \<open>7.999\<close> it is kept, at
  \<open>8.001\<close> it is discarded.
\<close>

theorem C4_discard_iff_distSq_exceeds_8:
  "(main u col p = None \<longleftrightarrow> 8 < dot2 (finalPosition u p) (finalPosition u p))
   \<and> map_option alpha (main u col p)
       = (if 8 < dot2 (finalPosition u p) (finalPosition u p) then None
          else Some (exp (- 0.5 * dot2 (finalPosition u p) (finalPosition u p)) * alpha col))
   \<and> map_option alpha (main (u\<lparr>positionEffect := 0\<rparr>) col (Vec2 2 2))
       = Some (exp (- 4) * alpha col)
   \<and> map_option alpha (main (u\<lparr>positionEffect := 0\<rparr>) col (Vec2 (sqrt 7.999) 0))
       = Some (exp (- 0.5 * 7.999) * alpha col)
   \<and> main (u\<lparr>positionEffect := 0\<rparr>) col (Vec2 (sqrt 8.001) 0) = None"
  by (simp add: main_def finalPosition_def Let_def)

text \<open>
  Claim C8, as stated: in the pipeline, glow followed by invert turns the colour
  \<open>(1, 0, 0)\<close> into \<open>(-1, 1, 1)\<close>. The glow of the source has the fixed gain 1.5
  (\<open>applyGlowEffect\<close> returns \<open>color * 1.5\<close>, no gain can be set), so the pipeline
  with glow and invert enabled yields \<open>(-0.5, 1, 1)\<close>.
\<close>

theorem C8_glow_gain_counterexample:
  "colorEffects \<lparr>rainbowEffect = 0, time = 0, pulseEffect = 0, pulseTime = 0, glowEffect = 1,
         invertEffect = 1, positionEffect = 0, positionOffset = Vec3 0 0 0, positionTime = 0\<rparr>
        (Vec3 1 0 0) = Vec3 (- 0.5) 1 1
   \<and> Vec3 (- 0.5) 1 1 \<noteq> Vec3 (- 1) 1 1"
  by (simp add: colorEffects_def Let_def applyGlowEffect_def applyInvertEffect_def)

text \<open>
  Claim C8, amended: the enabled colour effects are applied in the fixed order rainbow,
  pulse, glow, invert, and the order matters: for the colour \<open>(1, 0, 0)\<close>, glow (gain
  1.5) followed by invert yields \<open>(-0.5, 1, 1)\<close>, unclamped, which is what the pipeline
  computes, and invert followed by glow would yield \<open>(0, 1.5, 1.5)\<close>.
\<close>

theorem C8_effects_in_fixed_order:
  "colorEffects u c =
     (if invertEffect u > 0 then applyInvertEffect else id)
      ((if glowEffect u > 0 then applyGlowEffect else id)
        ((if pulseEffect u > 0
          then (\<lambda>c. mix3 c (scale3 c (applyPulseEffect (pulseTime u))) 0.5) else id)
          ((if rainbowEffect u > 0 then (\<lambda>c. applyRainbowEffect c (time u)) else id) c)))
   \<and> applyInvertEffect (applyGlowEffect (Vec3 1 0 0)) = Vec3 (- 0.5) 1 1
   \<and> applyGlowEffect (applyInvertEffect (Vec3 1 0 0)) = Vec3 0 1.5 1.5
   \<and> applyInvertEffect (applyGlowEffect (Vec3 1 0 0))
        \<noteq> applyGlowEffect (applyInvertEffect (Vec3 1 0 0))
   \<and> colorEffects (u\<lparr>rainbowEffect := 0, pulseEffect := 0, glowEffect := 1, invertEffect := 1\<rparr>)
        (Vec3 1 0 0) = Vec3 (- 0.5) 1 1"
  by (simp add: colorEffects_def Let_def applyGlowEffect_def applyInvertEffect_def)

text \<open>
  Claim C9, as stated: the square wave alternates at a configurable frequency. The
  frequency of \<open>applyPositionEffect\<close> is the constant 15 of the shader text; no uniform
  and no parameter of the build sets it. With the offset \<open>(1, 0)\<close> at the time
  \<open>1 / 30\<close> the point \<open>(0, 0)\<close> is moved to \<open>(-1, 0)\<close>, where a square wave set to the
  frequency 1 would move it to \<open>(1, 0)\<close>.
\<close>

theorem C9_frequency_counterexample:
  "finalPosition \<lparr>rainbowEffect = 0, time = 0, pulseEffect = 0, pulseTime = 0,
         glowEffect = 0, invertEffect = 0, positionEffect = 1,
         positionOffset = Vec3 1 0 0, positionTime = 1 / 30\<rparr> (Vec2 0 0) = Vec2 (- 1) 0
   \<and> add2 (Vec2 0 0) (scale2 (Vec2 1 0) (square_wave_written 1 (1 / 30))) = Vec2 1 0
   \<and> wave (1 / 30) = - 1
   \<and> square_wave_written 1 (1 / 30) = 1"
  by (simp add: finalPosition_def applyPositionEffect_def wave_at_half_period
      square_wave_written_def fract_def)

text \<open>
  Claim C9, amended: when the position effect is active (\<open>positionEffect > 0\<close>), the
  local coordinate becomes \<open>p + o * w t\<close>, where \<open>o\<close> is the \<open>x, y\<close> part of
  \<open>positionOffset\<close>, \<open>t\<close> is \<open>positionTime\<close> and \<open>w\<close> is the square wave of the fixed
  frequency 15: \<open>w t\<close> is \<open>1\<close> when the fractional part of \<open>15 * t\<close> is below one half
  and \<open>-1\<close> otherwise. It takes no other value, has the period \<open>1 / 15\<close>, takes both
  values, and is not continuous (it jumps at \<open>t = 1 / 30\<close>).
\<close>

theorem C9_position_effect_square_wave:
  "finalPosition u p =
     (if positionEffect u > 0
      then add2 p (scale2 (Vec2 (vec3_x (positionOffset u)) (vec3_y (positionOffset u)))
                          (wave (positionTime u)))
      else p)
   \<and> applyPositionEffect u p t =
       add2 p (scale2 (Vec2 (vec3_x (positionOffset u)) (vec3_y (positionOffset u))) (wave t))
   \<and> wave t \<in> {1, - 1}
   \<and> wave t = (if fract (15 * t) < 1 / 2 then 1 else - 1)
   \<and> wave t = square_wave_written 15 t
   \<and> wave (t + 1 / 15) = wave t
   \<and> wave 0 = 1 \<and> wave (1 / 30) = - 1
   \<and> \<not> isCont wave (1 / 30)"
proof -
  have "wave (t + 1 / 15) = wave t"
    by (simp add: wave_def fract_def algebra_simps)
  moreover have "wave 0 = 1"
    by (simp add: wave_def fract_def)
  moreover have "wave t = (if fract (15 * t) < 1 / 2 then 1 else - 1)"
    by (simp add: wave_def mult.commute)
  moreover have "wave t = square_wave_written 15 t"
    by (simp add: wave_def square_wave_written_def)
  ultimately show ?thesis
    using wave_jumps wave_at_half_period
    by (simp add: finalPosition_def applyPositionEffect_def)
qed

text \<open>
  Claim C10. For every pixel that is not discarded, the value written has the alpha
  \<open>exp (- 0.5 * dot p p) * opacity\<close>, where \<open>p\<close> is the local coordinate after the
  position effect; the four colour effects change the RGB part only: the alpha, and
  whether the pixel is discarded, are the same for every setting of the rainbow, pulse,
  glow and invert uniforms.
\<close>

theorem C10_alpha_unchanged_by_color_effects:
  "(case main u col p of
      None \<Rightarrow> dot2 (finalPosition u p) (finalPosition u p) > 8
    | Some out \<Rightarrow>
        alpha out = exp (- 0.5 * dot2 (finalPosition u p) (finalPosition u p)) * alpha col
        \<and> rgb out = colorEffects u (rgb col))
   \<and> map_option alpha
        (main (u\<lparr>rainbowEffect := r, time := t, pulseEffect := q, pulseTime := s,
                 glowEffect := g, invertEffect := i\<rparr>) col p)
      = map_option alpha (main u col p)"
  by (simp add: main_def Let_def finalPosition_def applyPositionEffect_def)

section \<open>The vertex shader: properties\<close>

subsection \<open>Matrices\<close>

lemma transpose3_twice [simp]: "transpose3 (transpose3 m) = m"
  by (cases m rule: transpose3.cases) simp

lemma transpose3_mulMM: "transpose3 (mulMM A B) = mulMM (transpose3 B) (transpose3 A)"
proof (cases A rule: transpose3.cases)
  case A: (1 a b c d e f g h i)
  show ?thesis
  proof (cases B rule: transpose3.cases)
    case B: (1 a' b' c' d' e' f' g' h' i')
    show ?thesis
      unfolding A B by (simp add: algebra_simps)
  qed
qed

lemma mulMM_assoc: "mulMM (mulMM A B) C = mulMM A (mulMM B C)"
proof (cases A rule: transpose3.cases)
  case A: (1 a b c d e f g h i)
  show ?thesis
  proof (cases B rule: transpose3.cases)
    case B: (1 a' b' c' d' e' f' g' h' i')
    show ?thesis
    proof (cases C rule: transpose3.cases)
      case C: (1 a'' b'' c'' d'' e'' f'' g'' h'' i'')
      show ?thesis
        unfolding A B C by (simp add: algebra_simps)
    qed
  qed
qed

lemma Vrk_symmetric: "transpose3 (Vrk v) = Vrk v"
  by (cases "cov3D_M11_M12_M13 v"; cases "cov3D_M22_M23_M33 v")
    (simp add: Vrk_def Let_def mat3_def)

lemma cov2Dm_symmetric: "transpose3 (cov2Dm v) = cov2Dm v"
  by (simp add: cov2Dm_def transpose3_mulMM Vrk_symmetric mulMM_assoc)

lemma m10_transpose3: "m10 m = m01 (transpose3 m)"
  by (cases m rule: transpose3.cases) (simp add: m10_def m01_def)

lemma Jm_columns: "Jm v = transpose3 (J_written v)"
  by (simp add: Jm_def J_written_def rows3_def mat3_def Let_def power2_eq_square)

lemma dilate_entries:
  "m00 (dilate k m) = m00 m + k" "m01 (dilate k m) = m01 m" "m11 (dilate k m) = m11 m + k"
  by (cases m rule: transpose3.cases; simp add: m00_def m01_def m11_def)+

lemma det2_dilate: "det2 (dilate k m) = (m00 m + k) * (m11 m + k) - m01 m * m01 m"
  by (simp add: det2_def dilate_entries)

subsection \<open>Vectors\<close>

lemma scale2_scale2: "scale2 (scale2 e s) k = scale2 e (s * k)"
  by (cases e) simp

lemma dot2_rotated:
  "dot2 (scale2 (scale2 e s) k) (scale2 (scale2 (Vec2 (vec2_y e) (- vec2_x e)) s') k') = 0"
  by (cases e) simp

lemma dot2_quarter_turn: "dot2 e (Vec2 (vec2_y e) (- vec2_x e)) = 0"
  by (cases e) simp

lemma length2_scale2: "length2 (scale2 e k) = \<bar>k\<bar> * length2 e"
proof (cases e)
  case (Vec2 x y)
  have "x * k * (x * k) + y * k * (y * k) = (k * k) * (x * x + y * y)"
    by (simp add: algebra_simps)
  then show ?thesis
    by (simp add: Vec2 length2_def real_sqrt_mult)
qed

lemma length2_rotated: "length2 (Vec2 (vec2_y e) (- vec2_x e)) = length2 e"
  by (cases e) (simp add: length2_def add.commute)

lemma length2_eq_0: "length2 w = 0 \<longleftrightarrow> w = Vec2 0 0"
  by (cases w) (simp add: length2_def)

lemma normalize2_zero: "normalize2 (Vec2 0 0) = None"
  by (simp add: normalize2_def length2_def)

lemma normalize2_defined:
  assumes "w \<noteq> Vec2 0 0"
  shows "normalize2 w = Some (Vec2 (vec2_x w / length2 w) (vec2_y w / length2 w))"
  using assms by (simp add: normalize2_def length2_eq_0)

lemma length2_normalize2:
  assumes "normalize2 w = Some e"
  shows "length2 e = 1"
proof (cases w)
  case (Vec2 x y)
  define l where "l = sqrt (x * x + y * y)"
  from assms have ln: "l \<noteq> 0" and e: "e = Vec2 (x / l) (y / l)"
    by (auto simp add: normalize2_def length2_def Vec2 l_def split: if_splits)
  have "0 \<le> x * x + y * y"
    by simp
  then have ll: "l * l = x * x + y * y"
    by (simp add: l_def)
  have "x / l * (x / l) + y / l * (y / l) = (x * x + y * y) / (l * l)"
    by (simp add: add_divide_distrib)
  also have "\<dots> = (l * l) / (l * l)"
    by (simp only: ll)
  also have "\<dots> = 1"
    using ln by simp
  finally show ?thesis
    by (simp add: e length2_def)
qed

subsection \<open>The projection, stage by stage\<close>

lemma blur_cases:
  "blur bp v =
     (if antialiased bp
         \<and> alpha (vColor v)
             * sqrt (max (det2 (cov2Dm v) / det2 (dilate (kernel2DSize bp) (cov2Dm v))) 0)
           < minAlpha v
      then None
      else Some (dilate (kernel2DSize bp) (cov2Dm v),
                 if antialiased bp
                 then alpha (vColor v)
                        * sqrt (max (det2 (cov2Dm v) / det2 (dilate (kernel2DSize bp) (cov2Dm v))) 0)
                 else alpha (vColor v)))"
  by (simp add: blur_def Let_def)

lemma projection_Some:
  assumes "buildVertexShaderProjection bp v = Some out"
  shows "\<exists>a0. blur bp v = Some (dilate (kernel2DSize bp) (cov2Dm v), a0)
           \<and> out_vColor_a out = (if enableOptionalEffects bp then a0 * splatOpacityFromScene v else a0)"
    and "out_cov2Dv out = Vec3 (m00 (cov2Dm v) + kernel2DSize bp) (m01 (cov2Dm v))
                               (m11 (cov2Dm v) + kernel2DSize bp)"
    and "(out_eigenValue1 out, out_eigenValue2 out)
           = eigenValues v (vec3_x (out_cov2Dv out)) (vec3_y (out_cov2Dv out)) (vec3_z (out_cov2Dv out))"
    and "0 < out_eigenValue2 out"
    and "out_eigenVector1 out
           = normalize2 (Vec2 (vec3_y (out_cov2Dv out)) (out_eigenValue1 out - vec3_x (out_cov2Dv out)))"
    and "out_eigenVector2 out
           = map_option (\<lambda>e. Vec2 (vec2_y e) (- vec2_x e)) (out_eigenVector1 out)"
    and "out_basisVector1 out
           = map_option (\<lambda>e. scale2 (scale2 e (splatScale v))
               (min (sqrt8 * sqrt (out_eigenValue1 out))
                    (of_int (parseInt (maxScreenSpaceSplatSize bp))))) (out_eigenVector1 out)"
    and "out_basisVector2 out
           = map_option (\<lambda>e. scale2 (scale2 e (splatScale v))
               (min (sqrt8 * sqrt (out_eigenValue2 out))
                    (of_int (parseInt (maxScreenSpaceSplatSize bp))))) (out_eigenVector2 out)"
    and "out_gl_Position out
           = (case (out_basisVector1 out, out_basisVector2 out) of
                (Some c1, Some c2) \<Rightarrow> Some (quadPosition v c1 c2)
              | _ \<Rightarrow> None)"
  using assms
  by (auto simp add: buildVertexShaderProjection_def blur_cases Let_def dilate_entries
      split: if_splits option.splits)

lemma projection_None:
  assumes "snd (eigenValues v (m00 (cov2Dm v) + kernel2DSize bp) (m01 (cov2Dm v))
                             (m11 (cov2Dm v) + kernel2DSize bp)) \<le> 0"
  shows "buildVertexShaderProjection bp v = None"
  using assms
  by (simp add: buildVertexShaderProjection_def blur_cases Let_def dilate_entries)

subsection \<open>Sample inputs\<close>

lemma sqrt_9: "sqrt 9 = 3"
  by (rule real_sqrt_unique) simp_all

lemma sqrt_36: "sqrt 36 = 6"
  by (rule real_sqrt_unique) simp_all

lemma sqrt_8_times_sqrt_2: "sqrt 8 * sqrt 2 = 4"
proof -
  have "sqrt 8 * sqrt 2 = sqrt 16"
    by (simp flip: real_sqrt_mult)
  also have "\<dots> = 4"
    by (rule real_sqrt_unique) simp_all
  finally show ?thesis .
qed

lemma cov2Dm_aligned_splat:
  "cov2Dm aligned_splat = Mat3 (Vec3 1.7 0 0) (Vec3 0 7.7 0) (Vec3 0 0 0)"
  by (simp add: aligned_splat_def cov2Dm_def Tm_def Wm_def Jm_def Vrk_def identity3_def
      mat3_def Let_def)

lemma cov2Dm_zero_splat:
  "cov2Dm zero_splat = Mat3 (Vec3 0 0 0) (Vec3 0 0 0) (Vec3 0 0 0)"
  by (simp add: zero_splat_def aligned_splat_def cov2Dm_def Tm_def Wm_def Jm_def Vrk_def
      identity3_def mat3_def Let_def)

lemma eigenSolve_2_0_8: "eigenSolve 2 0 8 = (8, 2)"
  by (simp add: eigenSolve_def Let_def sqrt_9)

lemma projection_aligned_splat:
  "buildVertexShaderProjection (default_params\<lparr>maxScreenSpaceSplatSize := c\<rparr>) aligned_splat
   = Some \<lparr>out_cov2Dv = Vec3 2 0 8,
           out_eigenValue1 = 8, out_eigenValue2 = 2,
           out_eigenVector1 = Some (Vec2 0 1), out_eigenVector2 = Some (Vec2 1 0),
           out_basisVector1 = Some (Vec2 0 (min 8 (of_int (parseInt c)))),
           out_basisVector2 = Some (Vec2 (min 4 (of_int (parseInt c))) 0),
           out_vColor_a = 1,
           out_gl_Position = Some (Vec4 (2 * min 4 (of_int (parseInt c)))
                                        (2 * min 8 (of_int (parseInt c))) 0 1),
           out_vPosition = Vec2 sqrt8 sqrt8\<rparr>"
proof -
  have "blur (default_params\<lparr>maxScreenSpaceSplatSize := c\<rparr>) aligned_splat
          = Some (Mat3 (Vec3 2 0 0) (Vec3 0 8 0) (Vec3 0 0 0), 1)"
    by (simp add: blur_def cov2Dm_aligned_splat default_params_def)
      (simp add: aligned_splat_def alpha_def)
  then show ?thesis
    by (simp add: buildVertexShaderProjection_def m00_def m01_def m11_def eigenValues_def)
      (simp add: aligned_splat_def eigenSolve_2_0_8 Let_def normalize2_def length2_def sqrt_36
        sqrt8_def sqrt_8_times_sqrt_2 default_params_def quadPosition_def)
qed

lemma cov2Dm_wide_splat:
  "cov2Dm wide_splat = Mat3 (Vec3 7.7 0 0) (Vec3 0 1.7 0) (Vec3 0 0 0)"
  by (simp add: wide_splat_def aligned_splat_def cov2Dm_def Tm_def Wm_def Jm_def Vrk_def
      identity3_def mat3_def Let_def)

lemma eigenSolve_8_0_2: "eigenSolve 8 0 2 = (8, 2)"
  by (simp add: eigenSolve_def Let_def sqrt_9)

lemma projection_wide_splat:
  "buildVertexShaderProjection default_params wide_splat
   = Some \<lparr>out_cov2Dv = Vec3 8 0 2,
           out_eigenValue1 = 8, out_eigenValue2 = 2,
           out_eigenVector1 = None, out_eigenVector2 = None,
           out_basisVector1 = None, out_basisVector2 = None,
           out_vColor_a = 1,
           out_gl_Position = None,
           out_vPosition = Vec2 sqrt8 sqrt8\<rparr>"
proof -
  have "blur default_params wide_splat
          = Some (Mat3 (Vec3 8 0 0) (Vec3 0 2 0) (Vec3 0 0 0), 1)"
    by (simp add: blur_def cov2Dm_wide_splat default_params_def)
      (simp add: wide_splat_def aligned_splat_def alpha_def)
  then show ?thesis
    by (simp add: buildVertexShaderProjection_def m00_def m01_def m11_def eigenValues_def)
      (simp add: wide_splat_def aligned_splat_def eigenSolve_8_0_2 Let_def normalize2_zero)
qed

lemma cov2Dm_flat_splat:
  "cov2Dm flat_splat = Mat3 (Vec3 0 0 0) (Vec3 0 1 0) (Vec3 0 0 0)"
  by (simp add: flat_splat_def aligned_splat_def cov2Dm_def Tm_def Wm_def Jm_def Vrk_def
      identity3_def mat3_def Let_def)

lemma projection_flat_splat:
  "buildVertexShaderProjection (default_params\<lparr>kernel2DSize := 0.2\<rparr>) flat_splat
   = Some \<lparr>out_cov2Dv = Vec3 0.2 0 1.2,
           out_eigenValue1 = 0.2, out_eigenValue2 = 0.2,
           out_eigenVector1 = None, out_eigenVector2 = None,
           out_basisVector1 = None, out_basisVector2 = None,
           out_vColor_a = 1,
           out_gl_Position = None,
           out_vPosition = Vec2 sqrt8 sqrt8\<rparr>"
proof -
  have "blur (default_params\<lparr>kernel2DSize := 0.2\<rparr>) flat_splat
          = Some (Mat3 (Vec3 0.2 0 0) (Vec3 0 1.2 0) (Vec3 0 0 0), 1)"
    by (simp add: blur_def cov2Dm_flat_splat default_params_def)
      (simp add: flat_splat_def aligned_splat_def alpha_def)
  then show ?thesis
    by (simp add: buildVertexShaderProjection_def m00_def m01_def m11_def eigenValues_def)
      (simp add: flat_splat_def aligned_splat_def Let_def normalize2_zero)
qed

lemma projection_point_cloud:
  assumes "pointCloudModeEnabled v = 1" and "\<not> antialiased bp"
  shows "\<exists>out. buildVertexShaderProjection bp v = Some out"
  using assms by (simp add: buildVertexShaderProjection_def blur_cases eigenValues_def Let_def)

lemma projection_aligned_splat_antialiased:
  "\<exists>out. buildVertexShaderProjection (default_params\<lparr>antialiased := True\<rparr>) aligned_splat
           = Some out"
proof -
  have "(1 / 255)\<^sup>2 \<le> (1309 / 1600 :: real)"
    by (simp add: power2_eq_square)
  then have "1 / 255 \<le> sqrt (1309 / 1600)"
    by (rule real_le_rsqrt)
  then have "blur (default_params\<lparr>antialiased := True\<rparr>) aligned_splat
          = Some (Mat3 (Vec3 2 0 0) (Vec3 0 8 0) (Vec3 0 0 0), sqrt (1309 / 1600))"
    by (simp add: blur_def cov2Dm_aligned_splat default_params_def det2_def m00_def m01_def
        m11_def Let_def)
      (simp add: aligned_splat_def alpha_def)
  then show ?thesis
    by (simp add: buildVertexShaderProjection_def m00_def m01_def m11_def eigenValues_def)
      (simp add: aligned_splat_def eigenSolve_2_0_8 Let_def)
qed

subsection \<open>The claims\<close>

text \<open>
  Claim C1, as stated: \<open>J\<close> is the matrix written in the specification,
  \<open>T = transpose(modelViewUpper3x3) * J\<close> and \<open>cov2D = transpose(T) * Vrk * T\<close>. The
  shader passes the three written triples to the \<open>mat3\<close> constructor, which takes
  columns, so its \<open>J\<close> is the transpose of the matrix with these rows. For
  \<open>off_axis_splat\<close> (identity covariance, identity model view, focal lengths 1, view
  centre \<open>(1, 0, 1)\<close>, perspective) the shader's 2x2 block is \<open>(2, 0; 0, 1)\<close>, and the
  formulas with \<open>J\<close> read by rows give \<open>(1, 0; 0, 1)\<close>.
\<close>

theorem C1_J_rows_counterexample:
  "Vec3 (m00 (cov2Dm off_axis_splat)) (m01 (cov2Dm off_axis_splat)) (m11 (cov2Dm off_axis_splat))
     = Vec3 2 0 1
   \<and> Vec3 (m00 (cov2D_written off_axis_splat)) (m01 (cov2D_written off_axis_splat))
          (m11 (cov2D_written off_axis_splat))
     = Vec3 1 0 1
   \<and> Jm off_axis_splat = Mat3 (Vec3 1 0 (- 1)) (Vec3 0 1 0) (Vec3 0 0 0)
   \<and> J_written off_axis_splat = Mat3 (Vec3 1 0 0) (Vec3 0 1 0) (Vec3 (- 1) 0 0)"
  by (simp add: off_axis_splat_def cov2Dm_def cov2D_written_def Tm_def Wm_def Jm_def
      J_written_def rows3_def Vrk_def identity3_def mat3_def m00_def m01_def m11_def Let_def)

text \<open>
  Claim C1, amended: the written triples are the columns of \<open>J\<close>, that is, \<open>J\<close> is the
  transpose of the matrix written (in perspective mode its rows are
  \<open>(focal.x / z, 0, 0)\<close>, \<open>(0, focal.y / z, 0)\<close> and
  \<open>(- focal.x * x / z\<^sup>2, - focal.y * y / z\<^sup>2, 0)\<close>; in orthographic mode it is
  \<open>diag(orthoZoom, orthoZoom, 0)\<close>). With this \<open>J\<close>,
  \<open>T = transpose(modelViewUpper3x3) * J\<close> and \<open>cov2D = transpose(T) * Vrk * T\<close>, for
  the symmetric \<open>Vrk\<close> built from the six covariance entries. Hence \<open>cov2D\<close> is
  \<open>J' * M * Vrk * transpose(M) * transpose(J')\<close> for the written matrix \<open>J'\<close> and the
  model-view part \<open>M\<close>; it is symmetric, so the entries \<open>[0][0]\<close>, \<open>[0][1]\<close>,
  \<open>[1][1]\<close> that the shader keeps are its upper left 2x2 block. The view centre is
  off the plane \<open>z = 0\<close>, as the caller guarantees.
\<close>

theorem C1_projection_with_J_by_columns:
  assumes "orthographicMode v = 1 \<or> vec3_z (viewCenter v) \<noteq> 0"
  shows "Jm v = transpose3 (J_written v)
    \<and> Jm v =
        (if orthographicMode v = 1
         then Mat3 (Vec3 (orthoZoom v) 0 0) (Vec3 0 (orthoZoom v) 0) (Vec3 0 0 0)
         else Mat3 (Vec3 (vec2_x (focal v) / vec3_z (viewCenter v)) 0
                         (- vec2_x (focal v) * vec3_x (viewCenter v) / (vec3_z (viewCenter v))\<^sup>2))
                   (Vec3 0 (vec2_y (focal v) / vec3_z (viewCenter v))
                         (- vec2_y (focal v) * vec3_y (viewCenter v) / (vec3_z (viewCenter v))\<^sup>2))
                   (Vec3 0 0 0))
    \<and> Tm v = mulMM (transpose3 (modelView3 v)) (Jm v)
    \<and> cov2Dm v = mulMM (mulMM (transpose3 (Tm v)) (Vrk v)) (Tm v)
    \<and> cov2Dm v = mulMM (mulMM (mulMM (J_written v) (modelView3 v)) (Vrk v))
                       (mulMM (transpose3 (modelView3 v)) (transpose3 (J_written v)))
    \<and> transpose3 (Vrk v) = Vrk v
    \<and> transpose3 (cov2Dm v) = cov2Dm v
    \<and> m10 (cov2Dm v) = m01 (cov2Dm v)"
proof -
  have "cov2Dm v = mulMM (mulMM (mulMM (J_written v) (modelView3 v)) (Vrk v))
                       (mulMM (transpose3 (modelView3 v)) (transpose3 (J_written v)))"
    by (simp add: cov2Dm_def Tm_def Wm_def Jm_columns transpose3_mulMM)
  moreover have "Jm v =
        (if orthographicMode v = 1
         then Mat3 (Vec3 (orthoZoom v) 0 0) (Vec3 0 (orthoZoom v) 0) (Vec3 0 0 0)
         else Mat3 (Vec3 (vec2_x (focal v) / vec3_z (viewCenter v)) 0
                         (- vec2_x (focal v) * vec3_x (viewCenter v) / (vec3_z (viewCenter v))\<^sup>2))
                   (Vec3 0 (vec2_y (focal v) / vec3_z (viewCenter v))
                         (- vec2_y (focal v) * vec3_y (viewCenter v) / (vec3_z (viewCenter v))\<^sup>2))
                   (Vec3 0 0 0))"
    by (simp add: Jm_def mat3_def Let_def power2_eq_square)
  moreover have "m10 (cov2Dm v) = m01 (cov2Dm v)"
    by (simp add: m10_transpose3 cov2Dm_symmetric)
  moreover have "Tm v = mulMM (transpose3 (modelView3 v)) (Jm v)"
    by (simp add: Tm_def Wm_def)
  moreover have "cov2Dm v = mulMM (mulMM (transpose3 (Tm v)) (Vrk v)) (Tm v)"
    by (simp add: cov2Dm_def)
  ultimately show ?thesis
    using Jm_columns Vrk_symmetric cov2Dm_symmetric by blast
qed

theorem C1_projection_witness:
  "(orthographicMode off_axis_splat = 1 \<or> vec3_z (viewCenter off_axis_splat) \<noteq> 0)
   \<and> Jm off_axis_splat = transpose3 (J_written off_axis_splat)
   \<and> cov2Dm off_axis_splat
        = mulMM (mulMM (mulMM (J_written off_axis_splat) (modelView3 off_axis_splat))
                       (Vrk off_axis_splat))
                (mulMM (transpose3 (modelView3 off_axis_splat))
                       (transpose3 (J_written off_axis_splat)))
   \<and> m10 (cov2Dm off_axis_splat) = m01 (cov2Dm off_axis_splat)"
proof -
  have h: "orthographicMode off_axis_splat = 1 \<or> vec3_z (viewCenter off_axis_splat) \<noteq> 0"
    by (simp add: off_axis_splat_def)
  from C1_projection_with_J_by_columns[OF h] h show ?thesis
    by blast
qed

text \<open>
  Claim C2. For the symmetric 2x2 matrix with the entries \<open>a\<close>, \<open>b\<close>, \<open>d\<close> the eigen-solve
  computes, with \<open>trace = a + d\<close> and
  \<open>term = sqrt (max 0.1 ((trace / 2)\<^sup>2 - (a * d - b\<^sup>2)))\<close>, the values
  \<open>eigenValue1 = trace / 2 + term\<close> and \<open>eigenValue2 = trace / 2 - term\<close>, and
  \<open>eigenValue1 \<ge> eigenValue2\<close>, also after the point cloud override.
\<close>

theorem C2_eigen_solve:
  "eigenSolve a b d =
     ((a + d) / 2 + sqrt (max 0.1 (((a + d) / 2)\<^sup>2 - (a * d - b\<^sup>2))),
      (a + d) / 2 - sqrt (max 0.1 (((a + d) / 2)\<^sup>2 - (a * d - b\<^sup>2))))
   \<and> snd (eigenSolve a b d) \<le> fst (eigenSolve a b d)
   \<and> snd (eigenValues v a b d) \<le> fst (eigenValues v a b d)"
  by (simp add: eigenSolve_def eigenValues_def Let_def power2_eq_square)

text \<open>
  Claim C3, as stated: each basis vector is the eigenvector times \<open>splatScale\<close> times
  \<open>min (sqrt 8 * sqrt eigenValue) maxScreenSpaceSplatSize\<close>, and the two are orthogonal.
  First, the shader text holds \<open>parseInt(maxScreenSpaceSplatSize)\<close>, so for the size
  \<open>2.5\<close> the bound is \<open>2\<close>: for \<open>aligned_splat\<close> (eigenvalues 8 and 2, eigenvectors
  \<open>(0, 1)\<close> and \<open>(1, 0)\<close>) the basis vectors are \<open>(0, 2)\<close> and \<open>(2, 0)\<close>, and the
  claim's formula gives \<open>(0, 2.5)\<close> and \<open>(2.5, 0)\<close>. Second, for \<open>wide_splat\<close>
  (\<open>a = 8\<close>, \<open>b = 0\<close>, \<open>d = 2\<close>, eigenvalues 8 and 2) the vector normalized is
  \<open>(b, eigenValue1 - a) = (0, 0)\<close>: the eigenvectors and the basis vectors are
  undefined, and no dot product of them is zero.
\<close>

theorem C3_size_bound_counterexample:
  "buildVertexShaderProjection (default_params\<lparr>maxScreenSpaceSplatSize := 2.5\<rparr>) aligned_splat
     = Some \<lparr>out_cov2Dv = Vec3 2 0 8,
             out_eigenValue1 = 8, out_eigenValue2 = 2,
             out_eigenVector1 = Some (Vec2 0 1), out_eigenVector2 = Some (Vec2 1 0),
             out_basisVector1 = Some (Vec2 0 2), out_basisVector2 = Some (Vec2 2 0),
             out_vColor_a = 1,
             out_gl_Position = Some (Vec4 4 4 0 1),
             out_vPosition = Vec2 sqrt8 sqrt8\<rparr>
   \<and> scale2 (scale2 (Vec2 0 1) (splatScale aligned_splat)) (min (sqrt8 * sqrt 8) 2.5)
       = Vec2 0 2.5
   \<and> scale2 (scale2 (Vec2 1 0) (splatScale aligned_splat)) (min (sqrt8 * sqrt 2) 2.5)
       = Vec2 2.5 0
   \<and> plain_decimal 2.5
   \<and> buildVertexShaderProjection default_params wide_splat
       = Some \<lparr>out_cov2Dv = Vec3 8 0 2,
               out_eigenValue1 = 8, out_eigenValue2 = 2,
               out_eigenVector1 = None, out_eigenVector2 = None,
               out_basisVector1 = None, out_basisVector2 = None,
               out_vColor_a = 1,
               out_gl_Position = None,
               out_vPosition = Vec2 sqrt8 sqrt8\<rparr>
   \<and> normalize2 (Vec2 0 (8 - 8)) = None"
  by (simp add: projection_aligned_splat projection_wide_splat parseInt_def plain_decimal_def
      normalize2_zero)
    (simp add: aligned_splat_def sqrt8_def sqrt_8_times_sqrt_2)

text \<open>
  Claim C3, amended: whenever the projection emits a quad and the vector
  \<open>(b, eigenValue1 - a)\<close> is not the zero vector, \<open>eigenVector1\<close> is that vector
  normalized (a unit vector), \<open>eigenVector2\<close> is \<open>eigenVector1\<close> turned by 90 degrees,
  and \<open>basisVector_i = eigenVector_i * splatScale * min (sqrt 8 * sqrt eigenValue_i) N\<close>,
  where \<open>N = parseInt maxScreenSpaceSplatSize\<close> is the size truncated to an integer (the
  size itself when it is an integer), for a size printed in plain decimal notation;
  consequently the two basis vectors are orthogonal. Nothing is said of the case
  \<open>(b, eigenValue1 - a) = (0, 0)\<close>.
\<close>

theorem C3_basis_vectors:
  assumes "buildVertexShaderProjection bp v = Some out"
    and "plain_decimal (maxScreenSpaceSplatSize bp)"
    and "Vec2 (vec3_y (out_cov2Dv out)) (out_eigenValue1 out - vec3_x (out_cov2Dv out))
           \<noteq> Vec2 0 0"
  shows "\<exists>e1 e2 b1 b2.
      normalize2 (Vec2 (vec3_y (out_cov2Dv out))
                       (out_eigenValue1 out - vec3_x (out_cov2Dv out))) = Some e1
    \<and> out_eigenVector1 out = Some e1
    \<and> length2 e1 = 1
    \<and> e2 = Vec2 (vec2_y e1) (- vec2_x e1)
    \<and> out_eigenVector2 out = Some e2
    \<and> b1 = scale2 e1 (splatScale v * min (sqrt8 * sqrt (out_eigenValue1 out))
                                         (of_int (parseInt (maxScreenSpaceSplatSize bp))))
    \<and> out_basisVector1 out = Some b1
    \<and> b2 = scale2 e2 (splatScale v * min (sqrt8 * sqrt (out_eigenValue2 out))
                                         (of_int (parseInt (maxScreenSpaceSplatSize bp))))
    \<and> out_basisVector2 out = Some b2
    \<and> dot2 e1 e2 = 0
    \<and> dot2 b1 b2 = 0
    \<and> sqrt8 = sqrt 8
    \<and> parseInt (of_int n) = n"
proof -
  note p = projection_Some[OF assms(1)]
  from normalize2_defined[OF assms(3)] obtain e1 where
    e1: "normalize2 (Vec2 (vec3_y (out_cov2Dv out))
                         (out_eigenValue1 out - vec3_x (out_cov2Dv out))) = Some e1"
    by blast
  define e2 where "e2 = Vec2 (vec2_y e1) (- vec2_x e1)"
  define b1 where "b1 = scale2 e1 (splatScale v * min (sqrt8 * sqrt (out_eigenValue1 out))
                                         (of_int (parseInt (maxScreenSpaceSplatSize bp))))"
  define b2 where "b2 = scale2 e2 (splatScale v * min (sqrt8 * sqrt (out_eigenValue2 out))
                                         (of_int (parseInt (maxScreenSpaceSplatSize bp))))"
  have o1: "out_eigenVector1 out = Some e1"
    using p(5) e1 by simp
  have o2: "out_eigenVector2 out = Some e2"
    by (simp add: p(6) o1 e2_def)
  have o3: "out_basisVector1 out = Some b1"
    by (simp add: p(7) o1 b1_def scale2_scale2)
  have o4: "out_basisVector2 out = Some b2"
    by (simp add: p(8) o2 b2_def scale2_scale2)
  have "dot2 e1 e2 = 0"
    unfolding e2_def by (rule dot2_quarter_turn)
  moreover have "dot2 b1 b2 = 0"
    unfolding b1_def b2_def e2_def scale2_scale2[symmetric] by (rule dot2_rotated)
  moreover have "parseInt (of_int n) = n"
    by (simp add: parseInt_def)
  moreover have "sqrt8 = sqrt 8"
    by (simp add: sqrt8_def)
  moreover note length2_normalize2[OF e1]
  ultimately show ?thesis
    using e1 o1 o2 o3 o4 e2_def b1_def b2_def by blast
qed

theorem C3_basis_vectors_witness:
  "plain_decimal (maxScreenSpaceSplatSize (default_params\<lparr>maxScreenSpaceSplatSize := 2048\<rparr>))
   \<and> (\<exists>out e1 e2 b1 b2.
         buildVertexShaderProjection (default_params\<lparr>maxScreenSpaceSplatSize := 2048\<rparr>)
            aligned_splat = Some out
       \<and> Vec2 (vec3_y (out_cov2Dv out)) (out_eigenValue1 out - vec3_x (out_cov2Dv out))
           \<noteq> Vec2 0 0
       \<and> out_eigenVector1 out = Some e1 \<and> length2 e1 = 1
       \<and> out_eigenVector2 out = Some e2
       \<and> out_basisVector1 out = Some b1
       \<and> b1 = scale2 e1
             (splatScale aligned_splat
              * min (sqrt8 * sqrt (out_eigenValue1 out))
                    (of_int (parseInt (maxScreenSpaceSplatSize
                       (default_params\<lparr>maxScreenSpaceSplatSize := 2048\<rparr>)))))
       \<and> out_basisVector2 out = Some b2
       \<and> dot2 b1 b2 = 0)"
proof -
  obtain out where h: "buildVertexShaderProjection
      (default_params\<lparr>maxScreenSpaceSplatSize := 2048\<rparr>) aligned_splat = Some out"
    by (simp add: projection_aligned_splat)
  have d: "plain_decimal
      (maxScreenSpaceSplatSize (default_params\<lparr>maxScreenSpaceSplatSize := 2048\<rparr>))"
    by (simp add: plain_decimal_def)
  have nz: "Vec2 (vec3_y (out_cov2Dv out)) (out_eigenValue1 out - vec3_x (out_cov2Dv out))
              \<noteq> Vec2 0 0"
    using h by (auto simp add: projection_aligned_splat)
  from C3_basis_vectors[OF h d nz] h d nz show ?thesis
    by blast
qed

text \<open>
  Claim C5. With \<open>antialiased\<close> set, the shader takes the determinant of the 2x2 block
  before the kernel is added (\<open>detOrig\<close>) and after \<open>kernel2DSize\<close> is added to both
  diagonal entries (\<open>detBlur\<close>), multiplies the alpha by
  \<open>sqrt (max (detOrig / detBlur) 0)\<close>, and returns without a quad when the result is
  below \<open>minAlpha\<close>. Without \<open>antialiased\<close> the kernel is added all the same and this
  step leaves the alpha as it is. (When \<open>enableOptionalEffects\<close> is set the shader later
  multiplies the alpha by \<open>splatOpacityFromScene\<close>, in both cases.)
\<close>

theorem C5_antialias_compensation:
  "(let c = cov2Dm v; k = kernel2DSize bp;
        detOrig = m00 c * m11 c - m01 c * m01 c;
        detBlur = (m00 c + k) * (m11 c + k) - m01 c * m01 c;
        alphaAA = alpha (vColor v) * sqrt (max (detOrig / detBlur) 0)
    in blur bp v =
         (if antialiased bp
          then (if alphaAA < minAlpha v then None else Some (dilate k c, alphaAA))
          else Some (dilate k c, alpha (vColor v)))
       \<and> m00 (dilate k c) = m00 c + k \<and> m11 (dilate k c) = m11 c + k
       \<and> m01 (dilate k c) = m01 c
       \<and> (antialiased bp \<and> alphaAA < minAlpha v
            \<longrightarrow> buildVertexShaderProjection bp v = None)
       \<and> (buildVertexShaderProjection bp v = Some out
            \<longrightarrow> out_cov2Dv out = Vec3 (m00 c + k) (m01 c) (m11 c + k)
              \<and> out_vColor_a out
                  = (if antialiased bp then alphaAA else alpha (vColor v))
                    * (if enableOptionalEffects bp then splatOpacityFromScene v else 1)))"
proof -
  have "buildVertexShaderProjection bp v = Some out \<Longrightarrow>
          out_vColor_a out
            = (if antialiased bp
               then alpha (vColor v)
                    * sqrt (max (det2 (cov2Dm v) / det2 (dilate (kernel2DSize bp) (cov2Dm v))) 0)
               else alpha (vColor v))
              * (if enableOptionalEffects bp then splatOpacityFromScene v else 1)"
    using projection_Some(1)[of bp v out] by (auto simp add: blur_cases split: if_splits)
  moreover have "buildVertexShaderProjection bp v = Some out \<Longrightarrow>
          out_cov2Dv out = Vec3 (m00 (cov2Dm v) + kernel2DSize bp) (m01 (cov2Dm v))
                               (m11 (cov2Dm v) + kernel2DSize bp)"
    by (rule projection_Some(2))
  moreover have "antialiased bp \<and> alpha (vColor v)
             * sqrt (max (det2 (cov2Dm v) / det2 (dilate (kernel2DSize bp) (cov2Dm v))) 0)
           < minAlpha v \<Longrightarrow> buildVertexShaderProjection bp v = None"
    by (simp add: buildVertexShaderProjection_def blur_cases)
  ultimately show ?thesis
    by (simp add: Let_def blur_cases dilate_entries flip: det2_dilate det2_def)
qed

theorem C5_antialias_witness:
  "buildVertexShaderProjection (default_params\<lparr>antialiased := True\<rparr>) zero_splat = None
   \<and> (\<exists>out. buildVertexShaderProjection (default_params\<lparr>antialiased := True\<rparr>) aligned_splat
               = Some out
          \<and> out_cov2Dv out = Vec3 2 0 8 \<and> out_vColor_a out = sqrt (1309 / 1600))
   \<and> (\<exists>out. buildVertexShaderProjection (default_params\<lparr>maxScreenSpaceSplatSize := 2048\<rparr>)
               aligned_splat = Some out
          \<and> out_cov2Dv out = Vec3 2 0 8 \<and> out_vColor_a out = 1)"
proof -
  have "buildVertexShaderProjection (default_params\<lparr>antialiased := True\<rparr>) zero_splat = None"
    using C5_antialias_compensation[where bp = "default_params\<lparr>antialiased := True\<rparr>"
        and v = zero_splat]
    by (simp add: Let_def cov2Dm_zero_splat m00_def m01_def m11_def default_params_def)
      (simp add: zero_splat_def aligned_splat_def alpha_def)
  moreover have "\<exists>out. buildVertexShaderProjection (default_params\<lparr>antialiased := True\<rparr>)
               aligned_splat = Some out
          \<and> out_cov2Dv out = Vec3 2 0 8 \<and> out_vColor_a out = sqrt (1309 / 1600)"
  proof -
    obtain out where h: "buildVertexShaderProjection (default_params\<lparr>antialiased := True\<rparr>)
        aligned_splat = Some out"
      using projection_aligned_splat_antialiased by blast
    have "out_cov2Dv out = Vec3 2 0 8 \<and> out_vColor_a out = sqrt (1309 / 1600)"
      using C5_antialias_compensation[where bp = "default_params\<lparr>antialiased := True\<rparr>"
          and v = aligned_splat and out = out] h
      by (simp add: Let_def cov2Dm_aligned_splat m00_def m01_def m11_def default_params_def)
        (simp add: aligned_splat_def alpha_def)
    with h show ?thesis
      by blast
  qed
  moreover have "\<exists>out. buildVertexShaderProjection
        (default_params\<lparr>maxScreenSpaceSplatSize := 2048\<rparr>) aligned_splat = Some out
          \<and> out_cov2Dv out = Vec3 2 0 8 \<and> out_vColor_a out = 1"
  proof -
    obtain out where h: "buildVertexShaderProjection
        (default_params\<lparr>maxScreenSpaceSplatSize := 2048\<rparr>) aligned_splat = Some out"
      by (simp add: projection_aligned_splat)
    have "out_cov2Dv out = Vec3 2 0 8 \<and> out_vColor_a out = 1"
      using C5_antialias_compensation[where v = aligned_splat
          and bp = "default_params\<lparr>maxScreenSpaceSplatSize := 2048\<rparr>" and out = out] h
      by (simp add: Let_def cov2Dm_aligned_splat m00_def m01_def m11_def default_params_def)
        (simp add: aligned_splat_def alpha_def)
    with h show ?thesis
      by blast
  qed
  ultimately show ?thesis
    by blast
qed

lemma point_cloud_circle:
  assumes "pointCloudModeEnabled v = 1"
    and "buildVertexShaderProjection bp v = Some out"
    and "Vec2 (vec3_y (out_cov2Dv out)) (0.2 - vec3_x (out_cov2Dv out)) \<noteq> Vec2 0 0"
  shows "\<exists>b1 b2. out_basisVector1 out = Some b1 \<and> out_basisVector2 out = Some b2
    \<and> dot2 b1 b2 = 0
    \<and> length2 b1 = \<bar>splatScale v * min (sqrt8 * sqrt 0.2)
                                       (of_int (parseInt (maxScreenSpaceSplatSize bp)))\<bar>
    \<and> length2 b2 = length2 b1"
proof -
  note p = projection_Some[OF assms(2)]
  have ev: "out_eigenValue1 out = 0.2" "out_eigenValue2 out = 0.2"
    using p(3) assms(1) by (simp_all add: eigenValues_def)
  from normalize2_defined[OF assms(3)] obtain e1 where
    e1: "normalize2 (Vec2 (vec3_y (out_cov2Dv out)) (0.2 - vec3_x (out_cov2Dv out))) = Some e1"
    by blast
  define r where "r = splatScale v * min (sqrt8 * sqrt 0.2)
                                        (of_int (parseInt (maxScreenSpaceSplatSize bp)))"
  have o1: "out_eigenVector1 out = Some e1"
    using p(5) e1 by (simp add: ev)
  have o3: "out_basisVector1 out = Some (scale2 e1 r)"
    by (simp add: p(7) o1 ev r_def scale2_scale2)
  have o4: "out_basisVector2 out = Some (scale2 (Vec2 (vec2_y e1) (- vec2_x e1)) r)"
    by (simp add: p(8) p(6) o1 ev r_def scale2_scale2)
  have "dot2 (scale2 e1 r) (scale2 (Vec2 (vec2_y e1) (- vec2_x e1)) r) = 0"
    using dot2_rotated[of e1 1 r 1 r] by (simp add: scale2_scale2)
  moreover have "length2 (scale2 e1 r) = \<bar>r\<bar>"
    by (simp only: length2_scale2 length2_normalize2[OF e1] mult_1_right)
  moreover have "length2 (scale2 (Vec2 (vec2_y e1) (- vec2_x e1)) r) = \<bar>r\<bar>"
    by (simp only: length2_scale2 length2_rotated length2_normalize2[OF e1] mult_1_right)
  ultimately show ?thesis
    using o3 o4 by (simp add: r_def)
qed

text \<open>
  Claim C6. In point cloud mode both eigenvalues are the constant 0.2 whatever the
  covariance, so that the two basis vectors have equal length and the footprint is a
  circle. The shader sets the eigenvalues so, and then normalizes \<open>(b, 0.2 - a)\<close>; for
  \<open>flat_splat\<close> (covariance \<open>diag(0, 1, 0)\<close>) with the kernel size \<open>0.2\<close> this is the
  zero vector, so that the eigenvectors, the basis vectors and the position of the
  corner are undefined: no circle is drawn for this splat.
\<close>

theorem C6_point_cloud_zero_vector:
  "pointCloudModeEnabled flat_splat = 1
   \<and> eigenValues flat_splat a b d = (0.2, 0.2)
   \<and> buildVertexShaderProjection (default_params\<lparr>kernel2DSize := 0.2\<rparr>) flat_splat
       = Some \<lparr>out_cov2Dv = Vec3 0.2 0 1.2,
               out_eigenValue1 = 0.2, out_eigenValue2 = 0.2,
               out_eigenVector1 = None, out_eigenVector2 = None,
               out_basisVector1 = None, out_basisVector2 = None,
               out_vColor_a = 1,
               out_gl_Position = None,
               out_vPosition = Vec2 sqrt8 sqrt8\<rparr>
   \<and> normalize2 (Vec2 0 (0.2 - 0.2)) = None"
proof (intro conjI)
  show "pointCloudModeEnabled flat_splat = 1"
    by (simp add: flat_splat_def)
  then show "eigenValues flat_splat a b d = (0.2, 0.2)"
    by (simp add: eigenValues_def)
  show "normalize2 (Vec2 0 (0.2 - 0.2)) = None"
    by (simp add: normalize2_zero)
qed (rule projection_flat_splat)

text \<open>
  Claim C7. Outside point cloud mode, a splat whose second eigenvalue (of the 2x2
  covariance with the kernel added) is zero or negative makes the shader return before
  it computes the basis vectors and the corner position: no quad is emitted.
\<close>

theorem C7_nonpositive_eigenvalue_discards:
  assumes "pointCloudModeEnabled v \<noteq> 1"
    and "snd (eigenSolve (m00 (cov2Dm v) + kernel2DSize bp) (m01 (cov2Dm v))
                         (m11 (cov2Dm v) + kernel2DSize bp)) \<le> 0"
  shows "buildVertexShaderProjection bp v = None"
  using assms by (intro projection_None) (simp add: eigenValues_def)

theorem C7_discard_witness:
  "pointCloudModeEnabled zero_splat \<noteq> 1
   \<and> snd (eigenSolve (m00 (cov2Dm zero_splat) + kernel2DSize default_params)
                     (m01 (cov2Dm zero_splat))
                     (m11 (cov2Dm zero_splat) + kernel2DSize default_params)) \<le> 0
   \<and> buildVertexShaderProjection default_params zero_splat = None"
proof -
  have pc: "pointCloudModeEnabled zero_splat \<noteq> 1"
    by (simp add: zero_splat_def aligned_splat_def)
  have "(3 / 10)\<^sup>2 \<le> (1 / 10 :: real)"
    by (simp add: power2_eq_square)
  then have "3 / 10 \<le> sqrt (1 / 10)"
    by (rule real_le_rsqrt)
  then have ev: "snd (eigenSolve (m00 (cov2Dm zero_splat) + kernel2DSize default_params)
                     (m01 (cov2Dm zero_splat))
                     (m11 (cov2Dm zero_splat) + kernel2DSize default_params)) \<le> 0"
    by (simp add: cov2Dm_zero_splat m00_def m01_def m11_def default_params_def eigenSolve_def
        Let_def)
  from C7_nonpositive_eigenvalue_discards[OF pc ev] pc ev show ?thesis
    by blast
qed

end
